theory Spec2Isabelle
  imports Main
begin

section \<open>smallsh: the job structure and the command-line parser\<close>

text \<open>
  The embedding follows \<^verbatim>\<open>seiferjo.smallsh.c\<close>. A C string is a \<^typ>\<open>string\<close> (the
  characters before its terminating NUL), a \<^verbatim>\<open>char *\<close> that may be \<^verbatim>\<open>NULL\<close> is a
  \<^typ>\<open>string option\<close>, and the \<^verbatim>\<open>int\<close> flags of \<^verbatim>\<open>struct job\<close>, which only ever
  hold 0 or 1, are Booleans.
\<close>

definition COMMAND_LINE_ARG :: nat where
  "COMMAND_LINE_ARG = 512"

definition TOKEN_DELIMITERS :: string where
  "TOKEN_DELIMITERS = [CHR '' '', CHR 0x09, CHR 0x0D, CHR 0x0A, CHR 0x07]"

text \<open>
  \<^verbatim>\<open>struct job\<close>. The array \<^verbatim>\<open>args\<close> has the slots \<open>0 .. COMMAND_LINE_ARG - 1\<close>;
  it is a function from indices, read only at those slots. C gives no meaning to a store
  past the last slot; in memory it lands on the members behind the array. The model does
  not say what such a store overwrites: it leaves the fields alone and appends the index
  to \<open>oob_stores\<close>, a field that is not in the C structure and only records that the
  store happened. So the members of a job describe the C structure only as long as
  \<open>oob_stores\<close> is empty, and the properties of the parser below are stated for
  runs in which it stays empty, those apart that exhibit such a store. The counter
  \<^verbatim>\<open>argCount\<close> is an \<^verbatim>\<open>int\<close> that counts the arguments of one line; it is a
  natural number here.
\<close>

record job =
  args :: "nat \<Rightarrow> string option"
  isInput :: bool
  inFile :: "string option"
  isOutput :: bool
  outFile :: "string option"
  isBackground :: bool
  argCount :: nat
  exitStatus :: string
  oob_stores :: "nat list"

text \<open>The assignment \<^verbatim>\<open>parsedInput->args[i] = v\<close>.\<close>

definition store_arg :: "nat \<Rightarrow> string option \<Rightarrow> job \<Rightarrow> job" where
  "store_arg i v j =
     (if i < COMMAND_LINE_ARG then j\<lparr>args := (args j)(i := v)\<rparr>
      else j\<lparr>oob_stores := oob_stores j @ [i]\<rparr>)"

text \<open>
  \<^verbatim>\<open>strtok\<close> with the delimiters \<^verbatim>\<open>TOKEN_DELIMITERS\<close>. Its hidden cursor is the text
  not yet scanned, passed in and returned. It skips delimiters; at the end of the text it
  returns \<^verbatim>\<open>NULL\<close> (and goes on returning \<^verbatim>\<open>NULL\<close>); otherwise the token is the
  run of non-delimiters, and the cursor moves behind the delimiter that ended it.
\<close>

definition is_delim :: "char \<Rightarrow> bool" where
  "is_delim c = (c \<in> set TOKEN_DELIMITERS)"

definition strtok :: "string \<Rightarrow> string option \<times> string" where
  "strtok cur =
     (let s = dropWhile is_delim cur
      in if s = [] then (None, [])
         else (Some (takeWhile (\<lambda>c. \<not> is_delim c) s),
               drop 1 (dropWhile (\<lambda>c. \<not> is_delim c) s)))"

lemma strtok_Some_shorter:
  assumes "strtok cur = (Some t, cur')"
  shows "length cur' < length cur"
proof -
  let ?s = "dropWhile is_delim cur"
  from assms have ne: "?s \<noteq> []" and c: "cur' = drop 1 (dropWhile (\<lambda>c. \<not> is_delim c) ?s)"
    by (auto simp: strtok_def Let_def split: if_splits)
  from ne have "\<not> is_delim (hd ?s)"
    using hd_dropWhile by blast
  with ne have "length (dropWhile (\<lambda>c. \<not> is_delim c) ?s) < length ?s"
    by (cases ?s) (auto simp: le_imp_less_Suc length_dropWhile_le)
  moreover have "length ?s \<le> length cur"
    by (rule length_dropWhile_le)
  ultimately show ?thesis
    using c by simp
qed

lemma strtok_None_end: "strtok cur = (None, cur') \<Longrightarrow> cur' = []"
  by (auto simp: strtok_def Let_def split: if_splits)

lemma strtok_Nil [simp]: "strtok [] = (None, [])"
  by (simp add: strtok_def)

text \<open>
  The \<^verbatim>\<open>while (token != NULL)\<close> loop of \<^verbatim>\<open>parseCommandLine\<close>: the current token, the
  cursor of \<^verbatim>\<open>strtok\<close> and the job being filled in.
\<close>

function parse_loop :: "string option \<Rightarrow> string \<Rightarrow> job \<Rightarrow> job" where
  "parse_loop None cur j = j"
| "parse_loop (Some token) cur j =
     (if token = ''<'' then
        (let j1 = j\<lparr>isInput := True\<rparr>;
             token1 = fst (strtok cur); cur1 = snd (strtok cur);
             j2 = j1\<lparr>inFile := token1\<rparr>
         in parse_loop (fst (strtok cur1)) (snd (strtok cur1)) j2)
      else if token = ''>'' then
        (let j1 = j\<lparr>isOutput := True\<rparr>;
             token1 = fst (strtok cur); cur1 = snd (strtok cur);
             j2 = j1\<lparr>outFile := token1\<rparr>
         in parse_loop (fst (strtok cur1)) (snd (strtok cur1)) j2)
      else if token = ''&'' then
        parse_loop (fst (strtok cur)) (snd (strtok cur)) (j\<lparr>isBackground := True\<rparr>)
      else
        (let j1 = store_arg (argCount j) (Some token) j;
             j2 = j1\<lparr>argCount := argCount j1 + 1\<rparr>
         in parse_loop (fst (strtok cur)) (snd (strtok cur)) j2))"
  by pat_completeness auto

lemma strtok_snd_le: "length (snd (strtok cur)) \<le> length cur"
proof (cases "strtok cur")
  case (Pair t c)
  then show ?thesis
    by (cases t) (auto dest: strtok_None_end strtok_Some_shorter)
qed

lemma strtok_measure_le:
  "(case fst (strtok cur) of None \<Rightarrow> 0 | Some _ \<Rightarrow> Suc (length (snd (strtok cur))))
     \<le> length cur"
proof (cases "strtok cur")
  case (Pair t c)
  then show ?thesis
    by (cases t) (auto dest: strtok_Some_shorter)
qed

termination parse_loop
proof (relation "measure (\<lambda>(tok, cur, j). case tok of None \<Rightarrow> 0 | Some _ \<Rightarrow> Suc (length cur))")
  show "wf (measure (\<lambda>(tok, cur, j). case tok of None \<Rightarrow> 0 | Some _ \<Rightarrow> Suc (length cur)))"
    by simp
next
  fix token cur :: string and j x xc :: job and xa xb
  assume "xb = snd (strtok cur)"
  then have "length xb \<le> length cur"
    by (simp add: strtok_snd_le)
  with strtok_measure_le [of xb]
  show "((fst (strtok xb), snd (strtok xb), xc), Some token, cur, j)
          \<in> measure (\<lambda>(tok, cur, j). case tok of None \<Rightarrow> 0 | Some _ \<Rightarrow> Suc (length cur))"
    by simp
  then show "((fst (strtok xb), snd (strtok xb), xc), Some token, cur, j)
          \<in> measure (\<lambda>(tok, cur, j). case tok of None \<Rightarrow> 0 | Some _ \<Rightarrow> Suc (length cur))" .
next
  fix token cur :: string and j :: job
  show "((fst (strtok cur), snd (strtok cur), j\<lparr>isBackground := True\<rparr>), Some token, cur, j)
          \<in> measure (\<lambda>(tok, cur, j). case tok of None \<Rightarrow> 0 | Some _ \<Rightarrow> Suc (length cur))"
    using strtok_measure_le [of cur] by simp
next
  fix token cur :: string and j xa :: job
  show "((fst (strtok cur), snd (strtok cur), xa), Some token, cur, j)
          \<in> measure (\<lambda>(tok, cur, j). case tok of None \<Rightarrow> 0 | Some _ \<Rightarrow> Suc (length cur))"
    using strtok_measure_le [of cur] by simp
qed

text \<open>
  \<^verbatim>\<open>parseCommandLine\<close>: the first \<^verbatim>\<open>strtok\<close> call starts at \<^verbatim>\<open>rawInput\<close>; after the
  loop the argument list is capped with \<^verbatim>\<open>NULL\<close> at index \<^verbatim>\<open>argCount\<close>. The function
  returns nothing and has no error path.
\<close>

definition parseCommandLine :: "string \<Rightarrow> job \<Rightarrow> job" where
  "parseCommandLine rawInput parsedInput =
     (let j = parse_loop (fst (strtok rawInput)) (snd (strtok rawInput)) parsedInput
      in store_arg (argCount j) None j)"

text \<open>
  The four assignments at the top of the loop of \<^verbatim>\<open>main\<close>. The array \<^verbatim>\<open>args\<close>, the two
  file names and \<^verbatim>\<open>exitStatus\<close> are not reset.
\<close>

definition main_reset :: "job \<Rightarrow> job" where
  "main_reset j = j\<lparr>isInput := False, isOutput := False, isBackground := False, argCount := 0\<rparr>"

subsection \<open>The token sequence of a line\<close>

text \<open>
  The calls of \<^verbatim>\<open>strtok\<close> do not depend on the job, so the tokens of a line are a list:
  what the successive calls return until the first \<^verbatim>\<open>NULL\<close>.
\<close>

function tokens :: "string \<Rightarrow> string list" where
  "tokens cur = (case fst (strtok cur) of None \<Rightarrow> [] | Some t \<Rightarrow> t # tokens (snd (strtok cur)))"
  by pat_completeness auto
termination
proof (relation "measure length")
  show "wf (measure length)" by simp
next
  fix cur :: string and t
  assume "fst (strtok cur) = Some t"
  then have "strtok cur = (Some t, snd (strtok cur))"
    by (metis prod.collapse)
  then show "(snd (strtok cur), cur) \<in> measure length"
    by (auto dest: strtok_Some_shorter)
qed

declare tokens.simps [simp del]

text \<open>
  The loop of \<^verbatim>\<open>parseCommandLine\<close> read over that list. After \<^verbatim>\<open><\<close> or \<^verbatim>\<open>>\<close> the
  next token, if there is one, is taken as the path whatever it is, and the loop goes on
  behind it; if there is none the path is \<^verbatim>\<open>NULL\<close> and the loop is over.
\<close>

fun parse_tokens :: "string list \<Rightarrow> job \<Rightarrow> job" where
  "parse_tokens [] j = j"
| "parse_tokens (token # ts) j =
     (if token = ''<'' then
        (case ts of
           [] \<Rightarrow> j\<lparr>isInput := True, inFile := None\<rparr>
         | p # ts' \<Rightarrow> parse_tokens ts' (j\<lparr>isInput := True, inFile := Some p\<rparr>))
      else if token = ''>'' then
        (case ts of
           [] \<Rightarrow> j\<lparr>isOutput := True, outFile := None\<rparr>
         | p # ts' \<Rightarrow> parse_tokens ts' (j\<lparr>isOutput := True, outFile := Some p\<rparr>))
      else if token = ''&'' then parse_tokens ts (j\<lparr>isBackground := True\<rparr>)
      else parse_tokens ts ((store_arg (argCount j) (Some token) j)
                              \<lparr>argCount := argCount (store_arg (argCount j) (Some token) j) + 1\<rparr>))"

section \<open>The shell process\<close>

subsection \<open>Signals, wait statuses and what the process does\<close>

text \<open>The two handlers the program uses for \<^verbatim>\<open>SIGINT\<close>.\<close>

datatype sighandler = SIG_DFL | SIG_IGN

text \<open>
  The \<^verbatim>\<open>int\<close> that \<^verbatim>\<open>waitpid\<close> stores is only read through the macros of
  \<^verbatim>\<open>sys/wait.h\<close>, which are not part of the program. A status is therefore what
  the four macros used by the program say about it; nothing is assumed about the encoding.
\<close>

record wstatus =
  WIFEXITED :: bool
  WEXITSTATUS :: int
  WIFSIGNALED :: bool
  WTERMSIG :: int

datatype wait_option = WUNTRACED | WNOHANG

text \<open>
  What one call of \<^verbatim>\<open>waitpid\<close> gives back: a return value together with the status
  it stored, or a return value alone (0 when \<^verbatim>\<open>WNOHANG\<close> finds no child that has
  changed state, -1 on an error), in which case \<^verbatim>\<open>status\<close> keeps its old value.
\<close>

datatype wait_ret = Stored int wstatus | Not_stored int

fun wait_pid :: "wait_ret \<Rightarrow> int" where
  "wait_pid (Stored r st) = r"
| "wait_pid (Not_stored r) = r"

fun wait_status :: "wait_ret \<Rightarrow> wstatus \<Rightarrow> wstatus" where
  "wait_status (Stored r st) old = st"
| "wait_status (Not_stored r) old = old"

text \<open>The calls the shell process makes that the properties below talk about, in order.\<close>

datatype syscall =
    Printf string
  | Fork
  | Waitpid int wait_option
  | Chdir "string option"
  | Sigaction sighandler
  | Open "string option"
  | Dup2 int int
  | Close int
  | Execvp "string option"

text \<open>
  The state of a process: the structure \<^verbatim>\<open>parsedInput\<close> of \<^verbatim>\<open>main\<close>, the handlers
  in the globals \<^verbatim>\<open>foreground\<close> and \<^verbatim>\<open>background\<close>, the disposition of
  \<^verbatim>\<open>SIGINT\<close>, the working directory, the files that descriptors 0 and 1 have been
  redirected to (\<open>None\<close>: the stream the process started with), and the calls made
  so far.
\<close>

record proc =
  parsedInput :: job
  foreground :: sighandler
  background :: sighandler
  sigint :: sighandler
  cwd :: string
  fd0 :: "string option"
  fd1 :: "string option"
  calls :: "syscall list"

text \<open>
  What the operating system answers during one iteration of the loop of \<^verbatim>\<open>main\<close>:
  the value of \<^verbatim>\<open>HOME\<close>; the directory \<^verbatim>\<open>chdir\<close> leads to from a current directory
  (\<open>None\<close> when it fails); what \<^verbatim>\<open>fork\<close> returns; the value the local variable
  \<^verbatim>\<open>status\<close> of \<^verbatim>\<open>runCommand\<close>, which is declared without an initialiser, happens
  to hold; the results of the successive \<^verbatim>\<open>waitpid\<close> calls; and, for the child,
  what \<^verbatim>\<open>open\<close> returns for reading and for writing, what \<^verbatim>\<open>dup2\<close> returns, and
  whether \<^verbatim>\<open>execvp\<close> fails (it returns only then).
\<close>

record os =
  HOME :: "string option"
  chdir_to :: "string \<Rightarrow> string option \<Rightarrow> string option"
  fork_ret :: int
  status_uninit :: wstatus
  waitpid_rets :: "wait_ret list"
  open_rdonly :: "string option \<Rightarrow> int"
  open_wronly :: "string option \<Rightarrow> int"
  dup2_ret :: "int \<Rightarrow> int \<Rightarrow> int"
  execvp_fails :: bool

definition call :: "syscall \<Rightarrow> proc \<Rightarrow> proc" where
  "call c p = p\<lparr>calls := calls p @ [c]\<rparr>"

definition printf :: "string \<Rightarrow> proc \<Rightarrow> proc" where
  "printf s p = call (Printf s) p"

text \<open>\<^verbatim>\<open>strcpy\<close> or \<^verbatim>\<open>sprintf\<close> into \<^verbatim>\<open>parsedInput->exitStatus\<close>.\<close>

definition set_exitStatus :: "string \<Rightarrow> proc \<Rightarrow> proc" where
  "set_exitStatus s p = p\<lparr>parsedInput := (parsedInput p)\<lparr>exitStatus := s\<rparr>\<rparr>"

text \<open>The conversion \<^verbatim>\<open>%d\<close> of \<^verbatim>\<open>printf\<close>.\<close>

fun digits :: "nat \<Rightarrow> string" where
  "digits n =
     (if n < 10 then [''0123456789'' ! n]
      else digits (n div 10) @ [''0123456789'' ! (n mod 10)])"

definition printf_d :: "int \<Rightarrow> string" where
  "printf_d i = (if i < 0 then CHR ''-'' # digits (nat (- i)) else digits (nat i))"

subsection \<open>\<^verbatim>\<open>init\<close>\<close>

definition init :: "proc \<Rightarrow> proc" where
  "init p =
     (let p1 = p\<lparr>foreground := SIG_DFL\<rparr>;
          p2 = p1\<lparr>background := SIG_IGN\<rparr>
      in p2\<lparr>sigint := background p2\<rparr>)"

subsection \<open>\<^verbatim>\<open>runBuiltIn\<close>\<close>

text \<open>
  \<^verbatim>\<open>chdir(path)\<close>: the call is recorded; the working directory changes when the
  operating system accepts the path. The result says whether the call returned 0.
\<close>

definition chdir :: "os \<Rightarrow> string option \<Rightarrow> proc \<Rightarrow> bool \<times> proc" where
  "chdir e path p =
     (case chdir_to e (cwd p) path of
        Some d \<Rightarrow> (True, (call (Chdir path) p)\<lparr>cwd := d\<rparr>)
      | None \<Rightarrow> (False, call (Chdir path) p))"

definition runBuiltIn :: "os \<Rightarrow> proc \<Rightarrow> proc" where
  "runBuiltIn e p =
     (if args (parsedInput p) 0 = Some ''status'' then
        set_exitStatus ''exit value 0'' (printf (exitStatus (parsedInput p) @ ''\<newline>'') p)
      else
        (case args (parsedInput p) 1 of
           Some path \<Rightarrow>
             (if fst (chdir e (Some path) p) then
                set_exitStatus ''exit value 0'' (snd (chdir e (Some path) p))
              else
                set_exitStatus ''exit value 1''
                  (printf (path @ '': no such file or directory\<newline>'')
                     (snd (chdir e (Some path) p))))
         | None \<Rightarrow> set_exitStatus ''exit value 0'' (snd (chdir e (HOME e) p))))"

subsection \<open>\<^verbatim>\<open>runCommand\<close>: the child\<close>

text \<open>
  The child ends by replacing its image or by \<^verbatim>\<open>exit\<close>. A \<^verbatim>\<open>NULL\<close> file name
  given to \<^verbatim>\<open>%s\<close> is shown as the C library shows it.
\<close>

datatype child_end = Image_replaced proc | Child_exit int proc

definition printf_s :: "string option \<Rightarrow> string" where
  "printf_s s = (case s of None \<Rightarrow> ''(null)'' | Some t \<Rightarrow> t)"

text \<open>The input part; \<open>Inl\<close> is the \<^verbatim>\<open>exit(1)\<close> after a failed \<^verbatim>\<open>open\<close>.\<close>

definition child_input :: "os \<Rightarrow> proc \<Rightarrow> proc + proc" where
  "child_input e p =
     (if isInput (parsedInput p) then
        (let saveIn = open_rdonly e (inFile (parsedInput p));
             p1 = call (Open (inFile (parsedInput p))) p
         in if saveIn = - 1 then
              Inl (printf (''smallsh: cannot open '' @ printf_s (inFile (parsedInput p))
                             @ '' for input\<newline>'') p1)
            else if dup2_ret e saveIn 0 = - 1 then
              Inr (call (Close saveIn)
                     (printf ''Error dup2 input file...\<newline>'' (call (Dup2 saveIn 0) p1)))
            else Inr ((call (Dup2 saveIn 0) p1)\<lparr>fd0 := inFile (parsedInput p)\<rparr>))
      else if isBackground (parsedInput p) then
        (let saveIn = open_rdonly e (Some ''/dev/null'');
             p1 = call (Open (Some ''/dev/null'')) p;
             p2 = (if saveIn = - 1 then printf ''Error opening input file...\<newline>'' p1 else p1)
         in if dup2_ret e saveIn 0 = - 1 then
              Inr (printf ''Error copying file descriptor.\<newline>'' (call (Dup2 saveIn 0) p2))
            else Inr ((call (Dup2 saveIn 0) p2)\<lparr>fd0 := Some ''/dev/null''\<rparr>))
      else Inr p)"

definition child_output :: "os \<Rightarrow> proc \<Rightarrow> proc" where
  "child_output e p =
     (if isOutput (parsedInput p) then
        (let saveOut = open_wronly e (outFile (parsedInput p));
             p1 = call (Open (outFile (parsedInput p))) p;
             p2 = (if saveOut = - 1 then printf ''Error opening output file...\<newline>'' p1 else p1)
         in if dup2_ret e saveOut 1 = - 1 then
              call (Close saveOut)
                (printf ''Error copying file descriptor.\<newline>'' (call (Dup2 saveOut 1) p2))
            else (call (Dup2 saveOut 1) p2)\<lparr>fd1 := outFile (parsedInput p)\<rparr>)
      else p)"

text \<open>
  The branch \<^verbatim>\<open>pid == 0\<close>. Its first statement installs the handler of the global
  \<^verbatim>\<open>foreground\<close>; the statement is not under any condition.
\<close>

definition runCommand_child :: "os \<Rightarrow> proc \<Rightarrow> child_end" where
  "runCommand_child e p =
     (let p1 = (call (Sigaction (foreground p)) p)\<lparr>sigint := foreground p\<rparr>
      in case child_input e p1 of
           Inl p2 \<Rightarrow> Child_exit 1 p2
         | Inr p2 \<Rightarrow>
             (let p3 = child_output e p2;
                  p4 = call (Execvp (args (parsedInput p3) 0)) p3
              in if execvp_fails e then
                   Child_exit 1
                     (printf (printf_s (args (parsedInput p3) 0)
                                @ '': no such file or directory\<newline>'') p4)
                 else Image_replaced p4))"

subsection \<open>\<^verbatim>\<open>runCommand\<close>: the parent\<close>

text \<open>
  The \<^verbatim>\<open>do ... while\<close> loop. Every \<^verbatim>\<open>waitpid\<close> call takes the next result the
  operating system gives; the loop is defined by recursion on that list, and \<open>None\<close>
  means that the results given are used up and the shell is still inside the loop. The
  result holds the process, the last value of \<^verbatim>\<open>status\<close> and the results not yet used.
\<close>

fun wait_loop :: "int \<Rightarrow> wstatus \<Rightarrow> wait_ret list \<Rightarrow> proc
    \<Rightarrow> (proc \<times> wstatus \<times> wait_ret list) option" where
  "wait_loop pid status [] p = None"
| "wait_loop pid status (r # rs) p =
     (if \<not> isBackground (parsedInput p) then
        (let status1 = wait_status r status;
             p1 = set_exitStatus (''exit value '' @ printf_d (WEXITSTATUS status1))
                    (call (Waitpid pid WUNTRACED) p)
         in if \<not> WIFEXITED status1 \<and> \<not> WIFSIGNALED status1
            then wait_loop pid status1 rs p1
            else Some (p1, status1, rs))
      else
        (let status1 = wait_status r status;
             p1 = call (Waitpid (- 1) WNOHANG) p
         in if \<not> WIFEXITED status1 \<and> \<not> WIFSIGNALED status1
            then wait_loop pid status1 rs p1
            else Some (p1, status1, rs)))"

text \<open>The statements behind the loop: the report of a signal and the single poll.\<close>

definition report_signal :: "wstatus \<Rightarrow> proc \<Rightarrow> proc" where
  "report_signal status p =
     (if WIFSIGNALED status then
        set_exitStatus (''terminated by signal '' @ printf_d (WTERMSIG status) @ ''.'')
          (printf (''terminated by signal '' @ printf_d (WTERMSIG status) @ ''.\<newline>'') p)
      else p)"

definition report_background :: "int \<Rightarrow> wstatus \<Rightarrow> proc \<Rightarrow> proc" where
  "report_background pid status p =
     (if pid > 0 then
        (let p1 = (if WIFEXITED status then
                     printf (''background pid '' @ printf_d pid @ '' is done: exit value ''
                               @ printf_d (WEXITSTATUS status) @ ''.\<newline>'') p
                   else p)
         in if WIFSIGNALED status then
              printf (''background pid '' @ printf_d pid @ '' is done: terminated by signal ''
                        @ printf_d (WTERMSIG status) @ ''.\<newline>'') p1
            else p1)
      else p)"

definition final_poll :: "wstatus \<Rightarrow> wait_ret list \<Rightarrow> proc \<Rightarrow> proc option" where
  "final_poll status rs p =
     (case rs of
        [] \<Rightarrow> None
      | r # rs' \<Rightarrow>
          Some (report_background (wait_pid r) (wait_status r status)
                  (call (Waitpid (- 1) WNOHANG) p)))"

definition runCommand_parent :: "os \<Rightarrow> int \<Rightarrow> proc \<Rightarrow> proc option" where
  "runCommand_parent e pid p =
     (let p1 = (if isBackground (parsedInput p)
                then printf (''background pid is '' @ printf_d pid @ ''\<newline>'') p else p)
      in case wait_loop pid (status_uninit e) (waitpid_rets e) p1 of
           None \<Rightarrow> None
         | Some (p2, status, rs) \<Rightarrow> final_poll status rs (report_signal status p2))"

text \<open>
  \<^verbatim>\<open>runCommand\<close> in the process that called \<^verbatim>\<open>fork\<close> and in the process it created.
\<close>

datatype run_result = In_child child_end | Returned proc | Still_waiting

definition runCommand :: "os \<Rightarrow> proc \<Rightarrow> run_result" where
  "runCommand e p =
     (let pid = fork_ret e; p1 = call Fork p
      in if pid = 0 then In_child (runCommand_child e p1)
         else if pid < 0 then Returned (printf ''Forking error...'' p1)
         else (case runCommand_parent e pid p1 of
                 None \<Rightarrow> Still_waiting
               | Some p2 \<Rightarrow> Returned p2))"

subsection \<open>One iteration of the loop of \<^verbatim>\<open>main\<close>\<close>

datatype main_step = Continue proc | Break proc | Child_process child_end | Waiting

definition main_iteration :: "string \<Rightarrow> os \<Rightarrow> proc \<Rightarrow> main_step" where
  "main_iteration rawInput e p =
     (let p1 = printf '': '' (p\<lparr>parsedInput := main_reset (parsedInput p)\<rparr>)
      in case rawInput of
           [] \<Rightarrow> Break p1
         | c # cs \<Rightarrow>
             if c = CHR 0x0A \<or> c = CHR ''#'' then Continue p1
             else
               (let p2 = p1\<lparr>parsedInput := parseCommandLine rawInput (parsedInput p1)\<rparr>
                in if argCount (parsedInput p2) = 0 then Continue p2
                   else if args (parsedInput p2) 0 = Some ''exit'' then Break p2
                   else if args (parsedInput p2) 0 = Some ''cd''
                           \<or> args (parsedInput p2) 0 = Some ''status''
                     then Continue (runBuiltIn e p2)
                   else (case runCommand e p2 of
                           In_child c \<Rightarrow> Child_process c
                         | Returned p3 \<Rightarrow> Continue p3
                         | Still_waiting \<Rightarrow> Waiting)))"

subsection \<open>Notions used to state the properties\<close>

text \<open>
  A job as \<^verbatim>\<open>main\<close> has it before the first line is read: \<^verbatim>\<open>exitStatus\<close> holds
  \<^verbatim>\<open>"none"\<close>; the members that \<^verbatim>\<open>main\<close> leaves uninitialised are given one
  possible content.
\<close>

definition initial_job :: job where
  "initial_job =
     \<lparr>args = (\<lambda>i. None), isInput = False, inFile = None, isOutput = False, outFile = None,
      isBackground = False, argCount = 0, exitStatus = ''none'', oob_stores = []\<rparr>"

text \<open>The three tokens that the parser does not store as arguments.\<close>

definition is_operator :: "string \<Rightarrow> bool" where
  "is_operator t = (t = ''<'' \<or> t = ''>'' \<or> t = ''&'')"

text \<open>
  Whether, after these tokens, the loop of the parser is not at its head but behind a
  \<^verbatim>\<open><\<close> or \<^verbatim>\<open>>\<close>, so that the token that follows is taken as a path.
\<close>

fun read_as_path :: "string list \<Rightarrow> bool" where
  "read_as_path [] = False"
| "read_as_path (t # ts) =
     (if t = ''<'' \<or> t = ''>'' then (case ts of [] \<Rightarrow> True | p # ts' \<Rightarrow> read_as_path ts')
      else read_as_path ts)"

text \<open>
  A result of \<^verbatim>\<open>waitpid\<close> that does not end the loop of a foreground job: a status was
  stored, and it says neither "exited" nor "signaled" (the child was stopped).
\<close>

fun stop_notice :: "wait_ret \<Rightarrow> bool" where
  "stop_notice (Stored r st) = (\<not> WIFEXITED st \<and> \<not> WIFSIGNALED st)"
| "stop_notice (Not_stored r) = False"

text \<open>
  The process in which \<^verbatim>\<open>runCommand\<close> returned, the process a child ended as, and
  the child that an iteration of \<^verbatim>\<open>main\<close> ended in.
\<close>

fun returned :: "run_result \<Rightarrow> proc option" where
  "returned (Returned p) = Some p"
| "returned r = None"

fun child_proc :: "child_end \<Rightarrow> proc" where
  "child_proc (Image_replaced p) = p"
| "child_proc (Child_exit n p) = p"

fun in_child :: "main_step \<Rightarrow> child_end option" where
  "in_child (Child_process c) = Some c"
| "in_child s = None"

text \<open>
  The shell when it enters the loop of \<^verbatim>\<open>main\<close>: \<^verbatim>\<open>init\<close> has run, nothing has been
  printed. The two globals start zeroed.
\<close>

definition initial_proc :: proc where
  "initial_proc =
     init \<lparr>parsedInput = initial_job, foreground = SIG_DFL, background = SIG_DFL,
           sigint = SIG_DFL, cwd = ''/'', fd0 = None, fd1 = None, calls = []\<rparr>"

text \<open>
  Statuses and an operating system for the examples: \<^verbatim>\<open>/tmp\<close> and \<^verbatim>\<open>/home/user\<close>
  are the directories that exist, every file can be opened, \<^verbatim>\<open>execvp\<close> succeeds, and
  \<^verbatim>\<open>fork\<close> returns 100 in the shell.
\<close>

definition exited :: "int \<Rightarrow> wstatus" where
  "exited n = \<lparr>WIFEXITED = True, WEXITSTATUS = n, WIFSIGNALED = False, WTERMSIG = 0\<rparr>"

definition signaled :: "int \<Rightarrow> wstatus" where
  "signaled n = \<lparr>WIFEXITED = False, WEXITSTATUS = 0, WIFSIGNALED = True, WTERMSIG = n\<rparr>"

definition stopped :: "int \<Rightarrow> wstatus" where
  "stopped n = \<lparr>WIFEXITED = False, WEXITSTATUS = n, WIFSIGNALED = False, WTERMSIG = 127\<rparr>"

definition example_os :: os where
  "example_os =
     \<lparr>HOME = Some ''/home/user'',
      chdir_to = (\<lambda>d path. if path = Some ''/tmp'' \<or> path = Some ''/home/user'' then path else None),
      fork_ret = 100,
      status_uninit = exited 0,
      waitpid_rets = [],
      open_rdonly = (\<lambda>path. if path = None then - 1 else 3),
      open_wronly = (\<lambda>path. if path = None then - 1 else 4),
      dup2_ret = (\<lambda>fd fd'. if fd = - 1 then - 1 else fd'),
      execvp_fails = False\<rparr>"

text \<open>
  The shell after it has parsed a foreground and a background command line.
\<close>

definition fg_proc :: proc where
  "fg_proc = initial_proc\<lparr>parsedInput := parseCommandLine ''ls -l\<newline>'' (main_reset initial_job)\<rparr>"

definition bg_proc :: proc where
  "bg_proc = initial_proc\<lparr>parsedInput := parseCommandLine ''sleep 100 &\<newline>'' (main_reset initial_job)\<rparr>"

text \<open>The shell after it has parsed a line that calls a built-in command.\<close>

definition status_proc :: proc where
  "status_proc = initial_proc\<lparr>parsedInput := parseCommandLine ''status\<newline>'' (main_reset initial_job)\<rparr>"

definition cd_proc :: "string \<Rightarrow> proc" where
  "cd_proc line = initial_proc\<lparr>parsedInput := parseCommandLine line (main_reset initial_job)\<rparr>"

section \<open>Properties\<close>

subsection \<open>The parser reads the token list\<close>

lemma tokens_Nil: "tokens [] = []"
  by (simp add: tokens.simps)

lemma tokens_Cons:
  "tokens (c # cs) =
     (case fst (strtok (c # cs)) of None \<Rightarrow> [] | Some t \<Rightarrow> t # tokens (snd (strtok (c # cs))))"
  by (rule tokens.simps)

lemmas tokens_eval = tokens_Nil tokens_Cons strtok_def is_delim_def TOKEN_DELIMITERS_def

lemma tokens_None: "fst (strtok cur) = None \<Longrightarrow> tokens cur = []"
  by (subst tokens.simps) simp

lemma tokens_Some: "fst (strtok cur) = Some t \<Longrightarrow> tokens cur = t # tokens (snd (strtok cur))"
  by (subst tokens.simps) simp

lemma strtok_fst_None_snd: "fst (strtok cur) = None \<Longrightarrow> snd (strtok cur) = []"
  by (metis prod.collapse strtok_None_end)

lemma parse_loop_tokens:
  "parse_loop tok cur j = parse_tokens (case tok of None \<Rightarrow> [] | Some t \<Rightarrow> t # tokens cur) j"
proof (induction tok cur j rule: parse_loop.induct)
  case (1 cur j)
  show ?case by simp
next
  case (2 token cur j)
  show ?case
  proof (cases "fst (strtok cur)")
    case None
    then show ?thesis using 2
      by (simp add: tokens_None strtok_fst_None_snd Let_def)
  next
    case (Some p)
    note p = this
    show ?thesis
    proof (cases "fst (strtok (snd (strtok cur)))")
      case None
      then show ?thesis using 2 p
        by (simp add: tokens_None tokens_Some Let_def)
    next
      case (Some q)
      then show ?thesis using 2 p
        by (simp add: tokens_None tokens_Some Let_def)
    qed
  qed
qed

lemma parseCommandLine_tokens:
  "parseCommandLine rawInput j =
     (let j' = parse_tokens (tokens rawInput) j in store_arg (argCount j') None j')"
  unfolding parseCommandLine_def parse_loop_tokens
  by (cases "fst (strtok rawInput)") (simp_all add: tokens_None tokens_Some)

lemma parse_tokens_append:
  "\<not> read_as_path ts \<Longrightarrow> parse_tokens (ts @ us) j = parse_tokens us (parse_tokens ts j)"
proof (induction ts j rule: parse_tokens.induct)
  case (1 j)
  show ?case by simp
next
  case (2 token ts j)
  then show ?case
    by (cases ts) (auto split: if_splits)
qed

subsection \<open>The bound of the argument array\<close>

lemma main_reset_fields [simp]:
  "exitStatus (main_reset j) = exitStatus j" "args (main_reset j) = args j"
  "oob_stores (main_reset j) = oob_stores j" "argCount (main_reset j) = 0"
  "isBackground (main_reset j) = False" "isInput (main_reset j) = False"
  "isOutput (main_reset j) = False"
  by (simp_all add: main_reset_def)

lemma store_arg_fields [simp]:
  "isInput (store_arg i v j) = isInput j" "inFile (store_arg i v j) = inFile j"
  "isOutput (store_arg i v j) = isOutput j" "outFile (store_arg i v j) = outFile j"
  "isBackground (store_arg i v j) = isBackground j" "argCount (store_arg i v j) = argCount j"
  "exitStatus (store_arg i v j) = exitStatus j"
  by (simp_all add: store_arg_def)

lemma store_arg_in_range:
  "i < COMMAND_LINE_ARG \<Longrightarrow> oob_stores (store_arg i v j) = oob_stores j"
  "i < COMMAND_LINE_ARG \<Longrightarrow> args (store_arg i v j) i = v"
  by (simp_all add: store_arg_def)

lemma argCount_parse_tokens_le:
  "argCount (parse_tokens ts j) \<le> argCount j + length (filter (\<lambda>t. \<not> is_operator t) ts)"
proof (induction ts j rule: parse_tokens.induct)
  case (1 j)
  show ?case by simp
next
  case (2 token ts j)
  then show ?case
    by (cases ts) (auto simp: is_operator_def split: if_splits)
qed

lemma oob_parse_tokens:
  "argCount j + length (filter (\<lambda>t. \<not> is_operator t) ts) \<le> COMMAND_LINE_ARG
     \<Longrightarrow> oob_stores (parse_tokens ts j) = oob_stores j"
proof (induction ts j rule: parse_tokens.induct)
  case (1 j)
  show ?case by simp
next
  case (2 token ts j)
  then show ?case
    by (cases ts) (auto simp: is_operator_def store_arg_in_range split: if_splits)
qed

lemma argCount_parse_tokens_args:
  "\<forall>t \<in> set ts. \<not> is_operator t \<Longrightarrow> argCount (parse_tokens ts j) = argCount j + length ts"
proof (induction ts arbitrary: j)
  case Nil
  show ?case by simp
next
  case (Cons t ts)
  then show ?case by (simp add: is_operator_def)
qed

lemma strtok_a: "strtok (''a '' @ rest) = (Some ''a'', rest)"
  by (simp add: tokens_eval)

lemma tokens_replicate_a: "tokens (concat (replicate n ''a '')) = replicate n ''a''"
proof (induction n)
  case 0
  show ?case by (simp add: tokens_None)
next
  case (Suc n)
  have "tokens (''a '' @ concat (replicate n ''a '')) = ''a'' # tokens (concat (replicate n ''a ''))"
    using tokens_Some [of "''a '' @ concat (replicate n ''a '')" "''a''"]
    by (simp only: strtok_a fst_conv snd_conv)
  with Suc show ?case by simp
qed

text \<open>
  C2 (as amended). \<^verbatim>\<open>parseCommandLine\<close> has no check of the argument count and no
  error result. For every line with at most 511 tokens other than \<^verbatim>\<open><\<close>, \<^verbatim>\<open>>\<close>
  and \<^verbatim>\<open>&\<close>, parsed from a job that \<^verbatim>\<open>main\<close> has reset, no store goes past the
  512 slots of \<^verbatim>\<open>args\<close>: the count stays below 512 and the \<^verbatim>\<open>NULL\<close> cap is stored
  inside the array.
\<close>

theorem args_in_bounds:
  assumes "length (filter (\<lambda>t. \<not> is_operator t) (tokens rawInput)) \<le> 511"
  shows "oob_stores (parseCommandLine rawInput (main_reset j)) = oob_stores j
         \<and> argCount (parseCommandLine rawInput (main_reset j)) < COMMAND_LINE_ARG
         \<and> args (parseCommandLine rawInput (main_reset j))
              (argCount (parseCommandLine rawInput (main_reset j))) = None"
proof -
  let ?j = "parse_tokens (tokens rawInput) (main_reset j)"
  have c: "argCount ?j \<le> 511"
    using argCount_parse_tokens_le [of "tokens rawInput" "main_reset j"] assms
    by (simp add: main_reset_def)
  have o: "oob_stores ?j = oob_stores j"
    using oob_parse_tokens [of "main_reset j" "tokens rawInput"] assms
    by (simp add: main_reset_def COMMAND_LINE_ARG_def)
  from c have lt: "argCount ?j < COMMAND_LINE_ARG"
    by (simp add: COMMAND_LINE_ARG_def)
  show ?thesis
    using o lt by (simp add: parseCommandLine_tokens Let_def store_arg_in_range)
qed

theorem args_in_bounds_witness:
  "length (filter (\<lambda>t. \<not> is_operator t) (tokens ''ls -l > out.txt &'')) \<le> 511
   \<and> oob_stores (parseCommandLine ''ls -l > out.txt &'' (main_reset initial_job)) = []
   \<and> argCount (parseCommandLine ''ls -l > out.txt &'' (main_reset initial_job)) < COMMAND_LINE_ARG
   \<and> args (parseCommandLine ''ls -l > out.txt &'' (main_reset initial_job))
        (argCount (parseCommandLine ''ls -l > out.txt &'' (main_reset initial_job))) = None"
proof -
  have t: "tokens ''ls -l > out.txt &'' = [''ls'', ''-l'', ''>'', ''out.txt'', ''&'']"
    by (simp add: tokens_eval)
  then have h: "length (filter (\<lambda>t. \<not> is_operator t) (tokens ''ls -l > out.txt &'')) \<le> 511"
    by (simp add: is_operator_def)
  show ?thesis
    using h args_in_bounds [OF h, of initial_job] by (simp add: initial_job_def)
qed

text \<open>
  The claim as stated fails for a line of exactly 512 arguments: nothing is reported,
  and the \<^verbatim>\<open>NULL\<close> cap is stored at index 512, one past the last slot.
\<close>

theorem cap_store_out_of_bounds:
  "length (filter (\<lambda>t. \<not> is_operator t) (tokens (concat (replicate 512 ''a '')))) = 512
   \<and> oob_stores (parseCommandLine (concat (replicate 512 ''a '')) (main_reset initial_job)) = [512]"
proof -
  let ?ts = "replicate 512 ''a''"
  let ?j = "parse_tokens ?ts (main_reset initial_job)"
  have n: "\<forall>t \<in> set ?ts. \<not> is_operator t"
    by (simp add: is_operator_def)
  then have f: "filter (\<lambda>t. \<not> is_operator t) ?ts = ?ts"
    by (simp add: is_operator_def)
  have c: "argCount ?j = 512"
    using argCount_parse_tokens_args [OF n, of "main_reset initial_job"]
    by (simp add: main_reset_def initial_job_def)
  have o: "oob_stores ?j = []"
    using oob_parse_tokens [of "main_reset initial_job" ?ts]
    by (simp only: f) (simp add: main_reset_def initial_job_def COMMAND_LINE_ARG_def)
  have "oob_stores (store_arg (argCount ?j) None ?j) = [512]"
    by (simp add: store_arg_def c o COMMAND_LINE_ARG_def)
  then show ?thesis
    by (simp only: parseCommandLine_tokens tokens_replicate_a Let_def f) simp
qed

text \<open>
  With one argument more, the 513th argument itself is stored at index 512 and the cap
  at index 513; the parser still returns a job and reports nothing.
\<close>

lemma read_as_path_args: "\<forall>t \<in> set ts. \<not> is_operator t \<Longrightarrow> \<not> read_as_path ts"
  by (induction ts) (auto simp: is_operator_def)

lemma excess_argument_stored_out_of_bounds:
  "oob_stores (parseCommandLine (concat (replicate 513 ''a '')) (main_reset initial_job)) = [512, 513]"
proof -
  let ?ts = "replicate 512 ''a''"
  let ?j = "parse_tokens ?ts (main_reset initial_job)"
  have n: "\<forall>t \<in> set ?ts. \<not> is_operator t"
    by (simp add: is_operator_def)
  then have f: "filter (\<lambda>t. \<not> is_operator t) ?ts = ?ts"
    by (simp add: is_operator_def)
  have c: "argCount ?j = 512"
    using argCount_parse_tokens_args [OF n, of "main_reset initial_job"] by simp
  have o: "oob_stores ?j = []"
    using oob_parse_tokens [of "main_reset initial_job" ?ts]
    by (simp only: f) (simp add: initial_job_def COMMAND_LINE_ARG_def)
  have "replicate (Suc 512) ''a'' = ?ts @ [''a'']"
    by (simp only: replicate_append_same replicate_Suc)
  then have "replicate 513 ''a'' = ?ts @ [''a'']"
    by simp
  then have "parse_tokens (replicate 513 ''a'') (main_reset initial_job) = parse_tokens [''a''] ?j"
    using parse_tokens_append [OF read_as_path_args [OF n]] by simp
  then have "oob_stores (store_arg (argCount (parse_tokens (replicate 513 ''a'') (main_reset initial_job))) None
                 (parse_tokens (replicate 513 ''a'') (main_reset initial_job))) = [512, 513]"
    by (simp add: store_arg_def c o COMMAND_LINE_ARG_def)
  then show ?thesis
    by (simp only: parseCommandLine_tokens tokens_replicate_a Let_def)
qed

subsection \<open>A redirection operator as the last token\<close>

lemma tokens_replicate_a_then:
  "tokens t = [t] \<Longrightarrow> tokens (concat (replicate n ''a '') @ t) = replicate n ''a'' @ [t]"
proof (induction n)
  case 0
  then show ?case by simp
next
  case (Suc n)
  have "tokens (''a '' @ (concat (replicate n ''a '') @ t))
          = ''a'' # tokens (concat (replicate n ''a '') @ t)"
    using tokens_Some [of "''a '' @ (concat (replicate n ''a '') @ t)" "''a''"]
    by (simp only: strtok_a fst_conv snd_conv)
  with Suc show ?case by simp
qed

text \<open>
  C10 (as amended). Take a job without stores past the array, and a line whose tokens
  before the last one leave room in the array (the count so far plus the number of those
  tokens other than \<^verbatim>\<open><\<close>, \<^verbatim>\<open>>\<close> and \<^verbatim>\<open>&\<close> is at most 511). When the last token
  is \<^verbatim>\<open><\<close> or \<^verbatim>\<open>>\<close> and the parser reads it as an operator (the token before it is
  not itself an operator waiting for its path), the parser returns the job it would
  return for the line without that token, with the corresponding flag set and the path
  \<^verbatim>\<open>NULL\<close>: the arguments, their count and all other members are the same, and no
  store, the \<^verbatim>\<open>NULL\<close> cap included, goes past the array.
\<close>

theorem trailing_redirect:
  assumes "tokens rawInput = ts @ [operator]" and "\<not> read_as_path ts"
    and "tokens rawInput' = ts"
    and "argCount j + length (filter (\<lambda>t. \<not> is_operator t) ts) \<le> 511"
    and "oob_stores j = []"
  shows "(operator = ''<'' \<longrightarrow>
            parseCommandLine rawInput j
              = (parseCommandLine rawInput' j)\<lparr>isInput := True, inFile := None\<rparr>)
       \<and> (operator = ''>'' \<longrightarrow>
            parseCommandLine rawInput j
              = (parseCommandLine rawInput' j)\<lparr>isOutput := True, outFile := None\<rparr>)
       \<and> (operator = ''<'' \<or> operator = ''>'' \<longrightarrow>
            oob_stores (parseCommandLine rawInput j) = []
            \<and> oob_stores (parseCommandLine rawInput' j) = [])"
proof -
  let ?j = "parse_tokens ts j"
  have c: "argCount ?j < COMMAND_LINE_ARG"
    using argCount_parse_tokens_le [of ts j] assms(4) by (simp add: COMMAND_LINE_ARG_def)
  have o: "oob_stores ?j = []"
    using oob_parse_tokens [of j ts] assms(4,5) by (simp add: COMMAND_LINE_ARG_def)
  have cap: "oob_stores (store_arg (argCount ?j) None ?j) = []"
    using c o by (simp add: store_arg_in_range)
  have eq: "(operator = ''<'' \<longrightarrow>
            parseCommandLine rawInput j
              = (parseCommandLine rawInput' j)\<lparr>isInput := True, inFile := None\<rparr>)
       \<and> (operator = ''>'' \<longrightarrow>
            parseCommandLine rawInput j
              = (parseCommandLine rawInput' j)\<lparr>isOutput := True, outFile := None\<rparr>)"
    using assms(1,2,3)
    by (simp add: parseCommandLine_tokens parse_tokens_append Let_def store_arg_def)
  have "oob_stores (parseCommandLine rawInput' j) = []"
    using cap assms(3) by (simp add: parseCommandLine_tokens Let_def)
  with eq show ?thesis by auto
qed

text \<open>
  Two instances: the line \<^verbatim>\<open>cat <\<close> (and \<^verbatim>\<open>cat >\<close>), and a line of 511 arguments
  followed by \<^verbatim>\<open><\<close>, where the cap is stored in the last slot.
\<close>

theorem trailing_redirect_witness:
  "tokens ''cat <'' = [''cat''] @ [''<''] \<and> \<not> read_as_path [''cat''] \<and> tokens ''cat'' = [''cat'']
   \<and> argCount initial_job + length (filter (\<lambda>t. \<not> is_operator t) [''cat'']) \<le> 511
   \<and> oob_stores initial_job = []
   \<and> parseCommandLine ''cat <'' initial_job
       = (parseCommandLine ''cat'' initial_job)\<lparr>isInput := True, inFile := None\<rparr>
   \<and> oob_stores (parseCommandLine ''cat <'' initial_job) = []
   \<and> tokens ''cat >'' = [''cat''] @ [''>'']
   \<and> parseCommandLine ''cat >'' initial_job
       = (parseCommandLine ''cat'' initial_job)\<lparr>isOutput := True, outFile := None\<rparr>
   \<and> oob_stores (parseCommandLine ''cat >'' initial_job) = []
   \<and> parseCommandLine (concat (replicate 511 ''a '') @ ''<'') (main_reset initial_job)
       = (parseCommandLine (concat (replicate 511 ''a '')) (main_reset initial_job))
           \<lparr>isInput := True, inFile := None\<rparr>
   \<and> oob_stores (parseCommandLine (concat (replicate 511 ''a '') @ ''<'') (main_reset initial_job))
       = []"
proof -
  have a: "tokens ''cat <'' = [''cat''] @ [''<'']" and b: "tokens ''cat >'' = [''cat''] @ [''>'']"
    and c: "tokens ''cat'' = [''cat'']" and l: "tokens ''<'' = [''<'']"
    by (simp_all add: tokens_eval)
  have r: "\<not> read_as_path [''cat'']" by simp
  have n: "argCount initial_job + length (filter (\<lambda>t. \<not> is_operator t) [''cat'']) \<le> 511"
    and o: "oob_stores initial_job = []"
    by (simp_all add: initial_job_def is_operator_def)
  have m: "\<forall>t \<in> set (replicate 511 ''a''). \<not> is_operator t"
    by (simp add: is_operator_def)
  then have f: "filter (\<lambda>t. \<not> is_operator t) (replicate 511 ''a'') = replicate 511 ''a''"
    by simp
  have h: "argCount (main_reset initial_job)
             + length (filter (\<lambda>t. \<not> is_operator t) (replicate 511 ''a'')) \<le> 511"
    by (simp only: f) simp
  have o': "oob_stores (main_reset initial_job) = []"
    by (simp add: initial_job_def)
  show ?thesis
    using trailing_redirect [OF a r c n o] trailing_redirect [OF b r c n o]
      trailing_redirect [OF tokens_replicate_a_then [OF l, of 511] read_as_path_args [OF m]
        tokens_replicate_a [of 511] h o']
      a b c r n o
    by simp
qed

text \<open>
  The claim as stated fails when the last token follows another redirection operator:
  in \<^verbatim>\<open>cat > <\<close> the final \<^verbatim>\<open><\<close> is stored as the output path and the input
  flag stays clear.
\<close>

theorem final_token_taken_as_path:
  "last (tokens ''cat > <'') = ''<''
   \<and> isInput (parseCommandLine ''cat > <'' (main_reset initial_job)) = False
   \<and> outFile (parseCommandLine ''cat > <'' (main_reset initial_job)) = Some ''<''"
  by (simp add: parseCommandLine_def tokens_eval
      main_reset_def initial_job_def store_arg_def COMMAND_LINE_ARG_def Let_def)

subsection \<open>An example line\<close>

text \<open>
  C9. Parsing the line \<^verbatim>\<open>ls -l > out.txt &\<close>, from any job that \<^verbatim>\<open>main\<close> has reset,
  gives the arguments \<^verbatim>\<open>ls\<close> and \<^verbatim>\<open>-l\<close> (two of them, followed by the \<^verbatim>\<open>NULL\<close>
  cap), the output redirection \<^verbatim>\<open>out.txt\<close>, the background flag, and no input
  redirection.
\<close>

theorem parse_ls_redirect_background:
  "(let j = parseCommandLine ''ls -l > out.txt &'' (main_reset j0)
    in map (args j) [0 ..< argCount j] = [Some ''ls'', Some ''-l''] \<and> args j 2 = None
       \<and> isOutput j \<and> outFile j = Some ''out.txt'' \<and> isBackground j \<and> \<not> isInput j)"
  by (simp add: parseCommandLine_def strtok_def is_delim_def TOKEN_DELIMITERS_def
      main_reset_def store_arg_def COMMAND_LINE_ARG_def Let_def upt_rec)

subsection \<open>Waiting for a foreground job\<close>

lemma set_exitStatus_fields [simp]:
  "exitStatus (parsedInput (set_exitStatus s p)) = s"
  "isBackground (parsedInput (set_exitStatus s p)) = isBackground (parsedInput p)"
  "args (parsedInput (set_exitStatus s p)) = args (parsedInput p)"
  "calls (set_exitStatus s p) = calls p"
  "cwd (set_exitStatus s p) = cwd p"
  "sigint (set_exitStatus s p) = sigint p"
  "set_exitStatus s (set_exitStatus s' p) = set_exitStatus s p"
  by (simp_all add: set_exitStatus_def)

lemma call_fields [simp]:
  "parsedInput (call c p) = parsedInput p"
  "calls (call c p) = calls p @ [c]"
  "cwd (call c p) = cwd p"
  "sigint (call c p) = sigint p"
  "foreground (call c p) = foreground p"
  by (simp_all add: call_def)

lemma set_exitStatus_call: "set_exitStatus s (call c p) = call c (set_exitStatus s p)"
  by (simp add: set_exitStatus_def call_def)

lemma wait_loop_foreground:
  assumes "\<not> isBackground (parsedInput p)" and "list_all stop_notice stops"
    and "WIFEXITED st \<or> WIFSIGNALED st"
  shows "wait_loop pid s0 (stops @ Stored q st # rs) p =
           Some (set_exitStatus (''exit value '' @ printf_d (WEXITSTATUS st))
                   (p\<lparr>calls := calls p @ replicate (Suc (length stops)) (Waitpid pid WUNTRACED)\<rparr>),
                 st, rs)"
  using assms
proof (induction stops arbitrary: p s0)
  case Nil
  then show ?case
    by (auto simp: Let_def call_def set_exitStatus_def)
next
  case (Cons r stops)
  from Cons.prems(2) obtain q' s' where r: "r = Stored q' s'"
    and s': "\<not> WIFEXITED s'" "\<not> WIFSIGNALED s'" and rest: "list_all stop_notice stops"
    by (cases r) auto
  let ?p1 = "set_exitStatus (''exit value '' @ printf_d (WEXITSTATUS s')) (call (Waitpid pid WUNTRACED) p)"
  have bg: "\<not> isBackground (parsedInput ?p1)"
    using Cons.prems(1) by simp
  have "wait_loop pid s0 ((r # stops) @ Stored q st # rs) p
          = wait_loop pid s' (stops @ Stored q st # rs) ?p1"
    using Cons.prems(1) r s' by (simp add: Let_def)
  also have "\<dots> = Some (set_exitStatus (''exit value '' @ printf_d (WEXITSTATUS st))
                   (?p1\<lparr>calls := calls ?p1 @ replicate (Suc (length stops)) (Waitpid pid WUNTRACED)\<rparr>),
                 st, rs)"
    using Cons.IH [OF bg rest Cons.prems(3)] .
  also have "set_exitStatus (''exit value '' @ printf_d (WEXITSTATUS st))
                   (?p1\<lparr>calls := calls ?p1 @ replicate (Suc (length stops)) (Waitpid pid WUNTRACED)\<rparr>)
       = set_exitStatus (''exit value '' @ printf_d (WEXITSTATUS st))
                   (p\<lparr>calls := calls p @ replicate (Suc (length (r # stops))) (Waitpid pid WUNTRACED)\<rparr>)"
    by (simp add: set_exitStatus_def call_def replicate_app_Cons_same)
  finally show ?case .
qed

lemma report_background_fields [simp]:
  "parsedInput (report_background pid st p) = parsedInput p"
  "cwd (report_background pid st p) = cwd p"
  "sigint (report_background pid st p) = sigint p"
  by (simp_all add: report_background_def printf_def Let_def)

lemma report_background_calls: "\<exists>cs. calls (report_background pid st p) = calls p @ cs"
  by (simp add: report_background_def printf_def Let_def)

lemma report_signal_exited [simp]: "\<not> WIFSIGNALED st \<Longrightarrow> report_signal st p = p"
  by (simp add: report_signal_def)

lemma parse_status_line:
  "parseCommandLine ''status\<newline>'' (main_reset j) =
     (main_reset j)\<lparr>args := (args j)(0 := Some ''status'', 1 := None), argCount := 1\<rparr>"
  by (simp add: parseCommandLine_def tokens_eval main_reset_def store_arg_def
      COMMAND_LINE_ARG_def Let_def)

lemma status_iteration:
  "main_iteration ''status\<newline>'' e p =
     Continue (p\<lparr>parsedInput := (main_reset (parsedInput p))
                   \<lparr>args := (args (parsedInput p))(0 := Some ''status'', 1 := None),
                    argCount := 1, exitStatus := ''exit value 0''\<rparr>,
                 calls := calls p @ [Printf '': '', Printf (exitStatus (parsedInput p) @ ''\<newline>'')]\<rparr>)"
  by (simp add: main_iteration_def parse_status_line runBuiltIn_def printf_def call_def
      set_exitStatus_def Let_def)

lemma fg_proc_foreground: "\<not> isBackground (parsedInput fg_proc)"
  by (simp add: fg_proc_def parseCommandLine_def tokens_eval Let_def)

lemma bg_proc_background: "isBackground (parsedInput bg_proc)"
  by (simp add: bg_proc_def parseCommandLine_def tokens_eval Let_def)


text \<open>
  C6. A foreground job: \<^verbatim>\<open>fork\<close> returns the child's pid to the shell, and
  \<^verbatim>\<open>waitpid\<close> reports, possibly after stop notices, that the child exited normally
  with code \<open>N\<close>. Then \<^verbatim>\<open>runCommand\<close> returns with \<^verbatim>\<open>exitStatus\<close> holding
  \<^verbatim>\<open>exit value N\<close>, and the iteration of \<^verbatim>\<open>main\<close> that reads the line
  \<^verbatim>\<open>status\<close> next prints the prompt and then exactly the line \<^verbatim>\<open>exit value N\<close>.
\<close>

theorem foreground_exit_then_status:
  assumes "0 < fork_ret e" and "\<not> isBackground (parsedInput p)"
    and "waitpid_rets e = stops @ Stored (fork_ret e) st # r # rs"
    and "list_all stop_notice stops"
    and "WIFEXITED st" and "\<not> WIFSIGNALED st" and "WEXITSTATUS st = N"
  shows "\<exists>p' p''. runCommand e p = Returned p'
           \<and> exitStatus (parsedInput p') = ''exit value '' @ printf_d N
           \<and> main_iteration ''status\<newline>'' e' p' = Continue p''
           \<and> calls p'' = calls p' @ [Printf '': '', Printf (''exit value '' @ printf_d N @ ''\<newline>'')]"
proof -
  let ?p1 = "call Fork p"
  have bg: "\<not> isBackground (parsedInput ?p1)"
    using assms(2) by simp
  have loop: "wait_loop (fork_ret e) (status_uninit e) (waitpid_rets e) ?p1 =
      Some (set_exitStatus (''exit value '' @ printf_d N)
              (?p1\<lparr>calls := calls ?p1 @ replicate (Suc (length stops)) (Waitpid (fork_ret e) WUNTRACED)\<rparr>),
            st, r # rs)"
    using wait_loop_foreground [OF bg assms(4), of st "fork_ret e" "status_uninit e" "fork_ret e" "r # rs"]
      assms(3,5,7) by simp
  define p' where "p' = report_background (wait_pid r) (wait_status r st)
      (call (Waitpid (- 1) WNOHANG)
        (set_exitStatus (''exit value '' @ printf_d N)
              (?p1\<lparr>calls := calls ?p1 @ replicate (Suc (length stops)) (Waitpid (fork_ret e) WUNTRACED)\<rparr>)))"
  have run: "runCommand e p = Returned p'"
    using assms(1,2,6) loop
    by (simp add: runCommand_def runCommand_parent_def final_poll_def p'_def Let_def)
  have st: "exitStatus (parsedInput p') = ''exit value '' @ printf_d N"
    by (simp add: p'_def)
  show ?thesis
    using run st by (simp add: status_iteration)
qed

theorem foreground_exit_then_status_witness:
  "0 < fork_ret (example_os\<lparr>waitpid_rets := [Stored 100 (stopped 19), Stored 100 (exited 3), Not_stored 0]\<rparr>)
   \<and> \<not> isBackground (parsedInput fg_proc)
   \<and> list_all stop_notice [Stored 100 (stopped 19)]
   \<and> WIFEXITED (exited 3) \<and> \<not> WIFSIGNALED (exited 3) \<and> WEXITSTATUS (exited 3) = 3
   \<and> (\<exists>p' p''. runCommand (example_os\<lparr>waitpid_rets := [Stored 100 (stopped 19), Stored 100 (exited 3), Not_stored 0]\<rparr>) fg_proc = Returned p'
           \<and> exitStatus (parsedInput p') = ''exit value 3''
           \<and> main_iteration ''status\<newline>'' example_os p' = Continue p''
           \<and> calls p'' = calls p' @ [Printf '': '', Printf ''exit value 3\<newline>''])"
proof -
  let ?e = "example_os\<lparr>waitpid_rets := [Stored 100 (stopped 19), Stored 100 (exited 3), Not_stored 0]\<rparr>"
  have a: "0 < fork_ret ?e" by (simp add: example_os_def)
  have b: "waitpid_rets ?e = [Stored 100 (stopped 19)] @ Stored (fork_ret ?e) (exited 3) # Not_stored 0 # []"
    by (simp add: example_os_def)
  have c: "list_all stop_notice [Stored 100 (stopped 19)]" by (simp add: stopped_def)
  have d: "WIFEXITED (exited 3)" "\<not> WIFSIGNALED (exited 3)" "WEXITSTATUS (exited 3) = 3"
    by (simp_all add: exited_def)
  show ?thesis
    using foreground_exit_then_status [OF a fg_proc_foreground b c d, of example_os] a c d
      fg_proc_foreground
    by (simp add: printf_d_def)
qed


text \<open>
  C5 (as amended). A foreground job whose child is reported as terminated by signal
  \<open>N\<close>: the shell prints the line \<^verbatim>\<open>terminated by signal N.\<close> and stores the text
  \<^verbatim>\<open>terminated by signal N.\<close> in \<^verbatim>\<open>exitStatus\<close>, both with a full stop at the end.
\<close>

theorem foreground_signal_status:
  assumes "0 < fork_ret e" and "\<not> isBackground (parsedInput p)"
    and "waitpid_rets e = stops @ Stored (fork_ret e) st # r # rs"
    and "list_all stop_notice stops"
    and "WIFSIGNALED st" and "WTERMSIG st = N"
  shows "\<exists>p' cs. runCommand e p = Returned p'
           \<and> exitStatus (parsedInput p') = ''terminated by signal '' @ printf_d N @ ''.''
           \<and> calls p' = calls p @ Fork # replicate (Suc (length stops)) (Waitpid (fork_ret e) WUNTRACED)
                 @ Printf (''terminated by signal '' @ printf_d N @ ''.\<newline>'')
                 # Waitpid (- 1) WNOHANG # cs"
proof -
  let ?p1 = "call Fork p"
  let ?p2 = "set_exitStatus (''exit value '' @ printf_d (WEXITSTATUS st))
              (?p1\<lparr>calls := calls ?p1 @ replicate (Suc (length stops)) (Waitpid (fork_ret e) WUNTRACED)\<rparr>)"
  let ?p3 = "call (Waitpid (- 1) WNOHANG) (report_signal st ?p2)"
  have bg: "\<not> isBackground (parsedInput ?p1)"
    using assms(2) by simp
  have loop: "wait_loop (fork_ret e) (status_uninit e) (waitpid_rets e) ?p1 = Some (?p2, st, r # rs)"
    using wait_loop_foreground [OF bg assms(4), of st "fork_ret e" "status_uninit e" "fork_ret e" "r # rs"]
      assms(3,5) by simp
  define p' where "p' = report_background (wait_pid r) (wait_status r st) ?p3"
  have run: "runCommand e p = Returned p'"
    using assms(1,2) loop
    by (simp add: runCommand_def runCommand_parent_def final_poll_def p'_def Let_def)
  have st: "exitStatus (parsedInput p') = ''terminated by signal '' @ printf_d N @ ''.''"
    using assms(5,6) by (simp add: p'_def report_signal_def)
  obtain cs where "calls p' = calls ?p3 @ cs"
    using report_background_calls [of "wait_pid r" "wait_status r st" ?p3] by (auto simp: p'_def)
  then have "calls p' = calls p @ Fork # replicate (Suc (length stops)) (Waitpid (fork_ret e) WUNTRACED)
                 @ Printf (''terminated by signal '' @ printf_d N @ ''.\<newline>'')
                 # Waitpid (- 1) WNOHANG # cs"
    using assms(5,6) by (simp add: report_signal_def printf_def set_exitStatus_def call_def)
  with run st show ?thesis by blast
qed

theorem foreground_signal_status_witness:
  "0 < fork_ret (example_os\<lparr>waitpid_rets := [Stored 100 (signaled 2), Not_stored 0]\<rparr>)
   \<and> \<not> isBackground (parsedInput fg_proc)
   \<and> list_all stop_notice []
   \<and> WIFSIGNALED (signaled 2) \<and> WTERMSIG (signaled 2) = 2
   \<and> (\<exists>p' cs. runCommand (example_os\<lparr>waitpid_rets := [Stored 100 (signaled 2), Not_stored 0]\<rparr>) fg_proc = Returned p'
           \<and> exitStatus (parsedInput p') = ''terminated by signal 2.''
           \<and> calls p' = calls fg_proc @ Fork # Waitpid 100 WUNTRACED
                 # Printf ''terminated by signal 2.\<newline>'' # Waitpid (- 1) WNOHANG # cs)"
proof -
  let ?e = "example_os\<lparr>waitpid_rets := [Stored 100 (signaled 2), Not_stored 0]\<rparr>"
  have a: "0 < fork_ret ?e" by (simp add: example_os_def)
  have b: "waitpid_rets ?e = [] @ Stored (fork_ret ?e) (signaled 2) # Not_stored 0 # []"
    by (simp add: example_os_def)
  have c: "list_all stop_notice []" by simp
  have d: "WIFSIGNALED (signaled 2)" "WTERMSIG (signaled 2) = 2"
    by (simp_all add: signaled_def)
  have f: "fork_ret ?e = 100" by (simp add: example_os_def)
  show ?thesis
    using foreground_signal_status [OF a fg_proc_foreground b c d] a d fg_proc_foreground
    by (simp add: printf_d_def f)
qed


text \<open>
  The claim as stated fails: for signal 2 the stored text is not
  \<^verbatim>\<open>terminated by signal 2\<close>, it ends with a full stop.
\<close>

theorem signal_text_ends_with_period:
  "map_option (\<lambda>p. exitStatus (parsedInput p))
     (returned (runCommand (example_os\<lparr>waitpid_rets := [Stored 100 (signaled 2), Not_stored 0]\<rparr>) fg_proc))
     = Some ''terminated by signal 2.''
   \<and> map_option (\<lambda>p. exitStatus (parsedInput p))
     (returned (runCommand (example_os\<lparr>waitpid_rets := [Stored 100 (signaled 2), Not_stored 0]\<rparr>) fg_proc))
     \<noteq> Some ''terminated by signal 2''"
  using fg_proc_foreground
  by (simp add: runCommand_def runCommand_parent_def final_poll_def report_signal_def
      report_background_def example_os_def signaled_def printf_d_def Let_def)


subsection \<open>The built-in commands\<close>

text \<open>
  C8. \<^verbatim>\<open>status\<close> prints the text of \<^verbatim>\<open>exitStatus\<close> as it is, followed by a
  newline, and then stores \<^verbatim>\<open>exit value 0\<close> there. The process is otherwise the
  same: the rest of the job, the signal handlers, the working directory and the
  descriptors are untouched, and the only call made is that \<^verbatim>\<open>printf\<close> (no
  \<^verbatim>\<open>fork\<close>).
\<close>

theorem status_builtin:
  assumes "args (parsedInput p) 0 = Some ''status''"
  shows "runBuiltIn e p =
           p\<lparr>parsedInput := (parsedInput p)\<lparr>exitStatus := ''exit value 0''\<rparr>,
             calls := calls p @ [Printf (exitStatus (parsedInput p) @ ''\<newline>'')]\<rparr>"
  using assms by (simp add: runBuiltIn_def printf_def call_def set_exitStatus_def)

theorem status_builtin_witness:
  "args (parsedInput status_proc) 0 = Some ''status''
   \<and> runBuiltIn example_os status_proc =
        status_proc\<lparr>parsedInput := (parsedInput status_proc)\<lparr>exitStatus := ''exit value 0''\<rparr>,
                     calls := [Printf ''none\<newline>'']\<rparr>"
proof -
  have a: "args (parsedInput status_proc) 0 = Some ''status''"
    by (simp add: status_proc_def parse_status_line)
  have b: "exitStatus (parsedInput status_proc) = ''none''" "calls status_proc = []"
    by (simp_all add: status_proc_def parse_status_line initial_job_def initial_proc_def init_def Let_def)
  show ?thesis
    using status_builtin [OF a, of example_os] a b by simp
qed


text \<open>
  C7. \<^verbatim>\<open>cd path\<close> with a path that \<^verbatim>\<open>chdir\<close> refuses leaves the working directory
  as it is, prints \<^verbatim>\<open>path: no such file or directory\<close> and stores
  \<^verbatim>\<open>exit value 1\<close>. \<^verbatim>\<open>cd\<close> alone calls \<^verbatim>\<open>chdir\<close> with the value of \<^verbatim>\<open>HOME\<close>,
  which becomes the working directory when the operating system accepts it, and stores
  \<^verbatim>\<open>exit value 0\<close> whatever \<^verbatim>\<open>chdir\<close> returned.
\<close>

theorem cd_builtin:
  assumes "args (parsedInput p) 0 = Some ''cd''"
  shows "(args (parsedInput p) 1 = Some path \<and> chdir_to e (cwd p) (Some path) = None \<longrightarrow>
            runBuiltIn e p =
              p\<lparr>parsedInput := (parsedInput p)\<lparr>exitStatus := ''exit value 1''\<rparr>,
                calls := calls p @ [Chdir (Some path),
                                    Printf (path @ '': no such file or directory\<newline>'')]\<rparr>)
       \<and> (args (parsedInput p) 1 = None \<longrightarrow>
            runBuiltIn e p =
              p\<lparr>parsedInput := (parsedInput p)\<lparr>exitStatus := ''exit value 0''\<rparr>,
                cwd := (case chdir_to e (cwd p) (HOME e) of Some d \<Rightarrow> d | None \<Rightarrow> cwd p),
                calls := calls p @ [Chdir (HOME e)]\<rparr>)"
  using assms
  by (auto simp: runBuiltIn_def chdir_def printf_def call_def set_exitStatus_def split: option.splits)

lemma parse_cd_lines:
  "parseCommandLine ''cd /nonexistent\<newline>'' (main_reset j) =
     (main_reset j)\<lparr>args := (args j)(0 := Some ''cd'', 1 := Some ''/nonexistent'', 2 := None),
                     argCount := 2\<rparr>"
  "parseCommandLine ''cd\<newline>'' (main_reset j) =
     (main_reset j)\<lparr>args := (args j)(0 := Some ''cd'', 1 := None), argCount := 1\<rparr>"
  by (simp_all add: parseCommandLine_def tokens_eval main_reset_def store_arg_def
      COMMAND_LINE_ARG_def Let_def numeral_2_eq_2)

theorem cd_builtin_witness:
  "args (parsedInput (cd_proc ''cd /nonexistent\<newline>'')) 0 = Some ''cd''
   \<and> args (parsedInput (cd_proc ''cd /nonexistent\<newline>'')) 1 = Some ''/nonexistent''
   \<and> chdir_to example_os (cwd (cd_proc ''cd /nonexistent\<newline>'')) (Some ''/nonexistent'') = None
   \<and> cwd (runBuiltIn example_os (cd_proc ''cd /nonexistent\<newline>'')) = ''/''
   \<and> exitStatus (parsedInput (runBuiltIn example_os (cd_proc ''cd /nonexistent\<newline>''))) = ''exit value 1''
   \<and> calls (runBuiltIn example_os (cd_proc ''cd /nonexistent\<newline>''))
        = [Chdir (Some ''/nonexistent''), Printf ''/nonexistent: no such file or directory\<newline>'']
   \<and> args (parsedInput (cd_proc ''cd\<newline>'')) 0 = Some ''cd''
   \<and> args (parsedInput (cd_proc ''cd\<newline>'')) 1 = None
   \<and> cwd (runBuiltIn example_os (cd_proc ''cd\<newline>'')) = ''/home/user''
   \<and> exitStatus (parsedInput (runBuiltIn example_os (cd_proc ''cd\<newline>''))) = ''exit value 0''"
proof -
  let ?p = "cd_proc ''cd /nonexistent\<newline>''" and ?q = "cd_proc ''cd\<newline>''"
  have a: "args (parsedInput ?p) 0 = Some ''cd''" "args (parsedInput ?p) 1 = Some ''/nonexistent''"
    and b: "args (parsedInput ?q) 0 = Some ''cd''" "args (parsedInput ?q) 1 = None"
    by (simp_all add: cd_proc_def parse_cd_lines)
  have c: "cwd ?p = ''/''" "calls ?p = []" "cwd ?q = ''/''"
    by (simp_all add: cd_proc_def initial_proc_def init_def Let_def)
  have d: "chdir_to example_os (cwd ?p) (Some ''/nonexistent'') = None"
    "chdir_to example_os ''/'' (HOME example_os) = Some ''/home/user''"
    by (simp_all add: example_os_def)
  show ?thesis
    using cd_builtin [OF a(1), of "''/nonexistent''" example_os]
      cd_builtin [OF b(1), of "''/nonexistent''" example_os] a b c d
    by simp
qed


subsection \<open>The child and the interrupt signal\<close>

text \<open>
  Whatever the job, the child leaves \<^verbatim>\<open>runCommand\<close> (by \<^verbatim>\<open>execvp\<close> or by
  \<^verbatim>\<open>exit\<close>) with the handler of the global \<^verbatim>\<open>foreground\<close> installed for
  \<^verbatim>\<open>SIGINT\<close>.
\<close>

lemma child_input_sigint:
  "child_input e p = Inl p' \<Longrightarrow> sigint p' = sigint p"
  "child_input e p = Inr p' \<Longrightarrow> sigint p' = sigint p"
  by (auto simp: child_input_def Let_def printf_def call_def split: if_splits)

lemma child_output_sigint: "sigint (child_output e p) = sigint p"
  by (simp add: child_output_def Let_def printf_def call_def)

lemma child_sigint_is_foreground_handler:
  "sigint (child_proc (runCommand_child e p)) = foreground p"
  by (auto simp: runCommand_child_def Let_def printf_def child_output_sigint
      dest: child_input_sigint split: sum.splits)

lemma parse_sleep_background:
  "parseCommandLine ''sleep 100 &\<newline>'' (main_reset j) =
     (main_reset j)\<lparr>args := (args j)(0 := Some ''sleep'', 1 := Some ''100'', 2 := None),
                     argCount := 2, isBackground := True\<rparr>"
  by (simp add: parseCommandLine_def tokens_eval main_reset_def store_arg_def
      COMMAND_LINE_ARG_def Let_def numeral_2_eq_2)


text \<open>
  C1. The claim asks that a background child keep the disposition \<^verbatim>\<open>SIG_IGN\<close> that
  it inherits from the shell. For the line \<^verbatim>\<open>sleep 100 &\<close> the job is a background
  job and the shell ignores \<^verbatim>\<open>SIGINT\<close>, yet the child replaces its image with the
  disposition \<^verbatim>\<open>SIG_DFL\<close>: the call of \<^verbatim>\<open>sigaction\<close> in the child is not guarded by
  \<^verbatim>\<open>isBackground\<close>.
\<close>

theorem background_child_restores_default:
  "sigint initial_proc = SIG_IGN
   \<and> isBackground (parseCommandLine ''sleep 100 &\<newline>'' (main_reset (parsedInput initial_proc)))
   \<and> map_option (\<lambda>c. sigint (child_proc c))
        (in_child (main_iteration ''sleep 100 &\<newline>'' (example_os\<lparr>fork_ret := 0\<rparr>) initial_proc))
      = Some SIG_DFL"
proof -
  have "sigint initial_proc = SIG_IGN"
    by (simp add: initial_proc_def init_def Let_def)
  moreover have "foreground initial_proc = SIG_DFL"
    by (simp add: initial_proc_def init_def Let_def)
  then have "map_option (\<lambda>c. sigint (child_proc c))
        (in_child (main_iteration ''sleep 100 &\<newline>'' (example_os\<lparr>fork_ret := 0\<rparr>) initial_proc))
      = Some SIG_DFL"
    by (simp add: main_iteration_def parse_sleep_background runCommand_def Let_def
        child_sigint_is_foreground_handler printf_def)
  ultimately show ?thesis
    by (simp add: parse_sleep_background)
qed

subsection \<open>Launching a background job\<close>

text \<open>
  For a background job every \<^verbatim>\<open>waitpid\<close> call of the loop has \<^verbatim>\<open>WNOHANG\<close>, but
  the loop is left only when \<^verbatim>\<open>status\<close> says "exited" or "signaled". When the first
  poll stores such a status, or stores nothing and the uninitialised \<^verbatim>\<open>status\<close>
  happens to read so, the shell returns after that poll and the final one.
\<close>

lemma background_launch_returns_after_one_poll:
  assumes "0 < fork_ret e" and "isBackground (parsedInput p)"
    and "waitpid_rets e = r # r' # rs"
    and "WIFEXITED (wait_status r (status_uninit e))"
    and "\<not> WIFSIGNALED (wait_status r (status_uninit e))"
  shows "\<exists>p' cs. runCommand e p = Returned p' \<and> parsedInput p' = parsedInput p
           \<and> calls p' = calls p @ Fork # Printf (''background pid is '' @ printf_d (fork_ret e) @ ''\<newline>'')
                 # Waitpid (- 1) WNOHANG # Waitpid (- 1) WNOHANG # cs"
proof -
  let ?p1 = "call (Waitpid (- 1) WNOHANG)
     (printf (''background pid is '' @ printf_d (fork_ret e) @ ''\<newline>'') (call Fork p))"
  let ?st = "wait_status r (status_uninit e)"
  define p' where "p' = report_background (wait_pid r') (wait_status r' ?st) (call (Waitpid (- 1) WNOHANG) ?p1)"
  have run: "runCommand e p = Returned p'"
    using assms
    by (simp add: runCommand_def runCommand_parent_def final_poll_def p'_def Let_def printf_def)
  obtain cs where "calls p' = calls (call (Waitpid (- 1) WNOHANG) ?p1) @ cs"
    using report_background_calls [of "wait_pid r'" "wait_status r' ?st" "call (Waitpid (- 1) WNOHANG) ?p1"]
    by (auto simp: p'_def)
  then have "calls p' = calls p @ Fork # Printf (''background pid is '' @ printf_d (fork_ret e) @ ''\<newline>'')
                 # Waitpid (- 1) WNOHANG # Waitpid (- 1) WNOHANG # cs"
    by (simp add: printf_def)
  moreover have "parsedInput p' = parsedInput p"
    by (simp add: p'_def printf_def)
  ultimately show ?thesis
    using run by blast
qed

lemma wait_loop_background_spin:
  "isBackground (parsedInput p) \<Longrightarrow> \<not> WIFEXITED s \<Longrightarrow> \<not> WIFSIGNALED s
     \<Longrightarrow> wait_loop pid s (replicate n (Not_stored r)) p = None"
proof (induction n arbitrary: p)
  case 0
  show ?case by simp
next
  case (Suc n)
  then show ?case by (simp add: Let_def)
qed


text \<open>
  C3. The claim asks that the shell return to the prompt after a background launch
  without waiting. With the child still running (every poll returns 0 and stores
  nothing) and an uninitialised \<^verbatim>\<open>status\<close> that reads neither "exited" nor "signaled",
  the shell has not returned after any number of polls: it stays in the loop until some
  child terminates.
\<close>

theorem background_launch_keeps_polling:
  "runCommand (example_os\<lparr>status_uninit := stopped 19, waitpid_rets := replicate n (Not_stored 0)\<rparr>)
     bg_proc = Still_waiting"
proof -
  let ?e = "example_os\<lparr>status_uninit := stopped 19, waitpid_rets := replicate n (Not_stored 0)\<rparr>"
  let ?p = "printf (''background pid is '' @ printf_d 100 @ ''\<newline>'') (call Fork bg_proc)"
  have "isBackground (parsedInput ?p)"
    using bg_proc_background by (simp add: printf_def)
  then have "wait_loop 100 (stopped 19) (replicate n (Not_stored 0)) ?p = None"
    by (rule wait_loop_background_spin) (simp_all add: stopped_def)
  then show ?thesis
    using bg_proc_background
    by (simp add: runCommand_def runCommand_parent_def example_os_def Let_def)
qed


text \<open>
  C4. The claim asks that a background launch leave \<^verbatim>\<open>exitStatus\<close> alone. When the
  poll in the loop collects an earlier background child that was killed by signal 15, the
  launch of \<^verbatim>\<open>sleep 100 &\<close> replaces \<^verbatim>\<open>none\<close> by \<^verbatim>\<open>terminated by signal 15.\<close>:
  the report of a signal behind the loop is not guarded by \<^verbatim>\<open>isBackground\<close>.
\<close>

theorem background_launch_overwrites_status:
  "isBackground (parsedInput bg_proc) \<and> exitStatus (parsedInput bg_proc) = ''none''
   \<and> map_option (\<lambda>p. exitStatus (parsedInput p))
        (returned (runCommand
           (example_os\<lparr>waitpid_rets := [Stored 99 (signaled 15), Not_stored 0]\<rparr>) bg_proc))
      = Some ''terminated by signal 15.''"
proof -
  have "exitStatus (parsedInput bg_proc) = ''none''"
    by (simp add: bg_proc_def parse_sleep_background initial_job_def)
  then show ?thesis
    using bg_proc_background
    by (simp add: runCommand_def runCommand_parent_def final_poll_def report_signal_def
      example_os_def signaled_def printf_d_def Let_def printf_def)
qed


end
